theory Spec2Isabelle
  imports Main
begin

section \<open>Python values\<close>

text \<open>
  The values that travel through the client: parameter dictionaries built by the endpoint
  methods, and whatever the response's JSON decoder hands back. A dictionary is an
  association list in insertion order; the client only ever builds dictionaries whose keys
  are distinct string literals.
\<close>

datatype pyval =
    PNone
  | PBool bool
  | PInt int
  | PStr string
  | PList "pyval list"
  | PDict "(pyval \<times> pyval) list"

type_synonym pydict = "(pyval \<times> pyval) list"

text \<open>\<^verbatim>\<open>d[k] = v\<close>: replace the value of an existing key, append a new key otherwise.\<close>

fun setitem :: "pydict \<Rightarrow> pyval \<Rightarrow> pyval \<Rightarrow> pydict" where
  "setitem [] k v = [(k, v)]"
| "setitem ((k', v') # d) k v = (if k' = k then (k, v) # d else (k', v') # setitem d k v)"

text \<open>\<^verbatim>\<open>dict(pairs)\<close>: the pairs are stored from left to right.\<close>

definition dict_of_pairs :: "(pyval \<times> pyval) list \<Rightarrow> pydict" where
  "dict_of_pairs ps = fold (\<lambda>(k, v) d. setitem d k v) ps []"

text \<open>\<^verbatim>\<open>str(i)\<close> for an integer: decimal digits, with a minus sign below zero.\<close>

definition digit_char :: "nat \<Rightarrow> char" where
  "digit_char d = ''0123456789'' ! (d mod 10)"

fun digits :: "nat \<Rightarrow> string" where
  "digits n = (if n < 10 then [digit_char n] else digits (n div 10) @ [digit_char (n mod 10)])"

declare digits.simps [simp del]

definition str_int :: "int \<Rightarrow> string" where
  "str_int i = (if i < 0 then CHR ''-'' # digits (nat (- i)) else digits (nat i))"

text \<open>
  \<^verbatim>\<open>str.format(template, arg)\<close> for the templates of this client, which hold the
  replacement field \<^verbatim>\<open>{0}\<close> and no other brace: every \<^verbatim>\<open>{0}\<close> is replaced
  by the rendered argument.
\<close>

fun str_format :: "string \<Rightarrow> string \<Rightarrow> string" where
  "str_format [] a = []"
| "str_format (c1 # c2 # c3 # cs) a =
     (if c1 = CHR ''{'' \<and> c2 = CHR ''0'' \<and> c3 = CHR ''}'' then a @ str_format cs a
      else c1 # str_format (c2 # c3 # cs) a)"
| "str_format (c # cs) a = c # str_format cs a"

section \<open>The HTTP library, as far as the client sees it\<close>

datatype verb = GET | POST

text \<open>
  One call of \<^verbatim>\<open>requests.get\<close> or \<^verbatim>\<open>requests.post\<close>: the URL, and the keyword
  arguments \<^verbatim>\<open>headers\<close>, \<^verbatim>\<open>params\<close> (the query string), \<^verbatim>\<open>data\<close> and
  \<^verbatim>\<open>json\<close> (the two ways of passing a request body; \<^verbatim>\<open>None\<close> when not given).
\<close>

record request =
  req_verb :: verb
  req_url :: string
  req_headers :: "(string \<times> string) list"
  req_params :: pyval
  req_data :: pyval
  req_json :: pyval

datatype pyexn = JSONDecodeError string | RequestException string

text \<open>
  A response object: its \<^verbatim>\<open>status_code\<close> attribute and what its \<^verbatim>\<open>json()\<close>
  method does when called (returns the decoded body, or raises).
\<close>

record response =
  status_code :: int
  json :: "pyexn + pyval"

text \<open>The library itself: it answers a request with a response, or raises.\<close>

type_synonym transport = "request \<Rightarrow> pyexn + response"

text \<open>
  Modelled from the spec: \<^verbatim>\<open>requests.codes['ok']\<close>, a constant of the HTTP library;
  the spec names the success status HTTP 200.
\<close>

definition codes_ok :: int where
  "codes_ok = 200"

section \<open>Effects\<close>

text \<open>
  What a call does besides returning, in order: \<open>Print url headers\<close> is
  \<^verbatim>\<open>print(url, headers)\<close> on standard output, \<open>Send r\<close> the request handed to the
  HTTP library, \<open>Json\<close> a call of the response's \<^verbatim>\<open>json()\<close>, \<open>Close\<close> a call of
  its \<^verbatim>\<open>close()\<close>.
\<close>

datatype event =
    Print string "(string \<times> string) list"
  | Send request
  | Json
  | Close

section \<open>The client\<close>

record PayWhirl =
  api_key :: string
  api_secret :: string
  api_base :: string

definition default_api_base :: string where
  "default_api_base = ''https://api.paywhirl.com''"

definition init :: "string \<Rightarrow> string \<Rightarrow> string \<Rightarrow> PayWhirl" where
  "init key secret base = \<lparr>api_key = key, api_secret = secret, api_base = base\<rparr>"

text \<open>
  A method call yields the object as the call leaves it, the effects in order, and either
  the returned value or the exception that left the method.
\<close>

record outcome =
  self_after :: PayWhirl
  trace :: "event list"
  result :: "pyexn + pyval"

text \<open>The requests a trace hands to the HTTP library.\<close>

fun sent :: "event list \<Rightarrow> request list" where
  "sent [] = []"
| "sent (Send r # es) = r # sent es"
| "sent (e # es) = sent es"

text \<open>A transport that answers every request with the same response.\<close>

definition mock :: "response \<Rightarrow> transport" where
  "mock resp req = Inr resp"

subsection \<open>The two dispatchers\<close>

definition PayWhirl_post :: "transport \<Rightarrow> PayWhirl \<Rightarrow> string \<Rightarrow> pyval \<Rightarrow> outcome" where
  "PayWhirl_post requests self endpoint params0 =
    (let params = (if params0 = PNone then PDict [] else params0);
         url = api_base self @ ''/'' @ endpoint;
         headers = [(''api_key'', api_key self), (''api_secret'', api_secret self)];
         req = \<lparr>req_verb = POST, req_url = url, req_headers = headers,
                req_params = params, req_data = PNone, req_json = PNone\<rparr>;
         io = [Print url headers, Send req]
     in case requests req of
          Inl e \<Rightarrow> \<lparr>self_after = self, trace = io, result = Inl e\<rparr>
        | Inr resp \<Rightarrow>
            if status_code resp = codes_ok then
              (case json resp of
                 Inl e \<Rightarrow> \<lparr>self_after = self, trace = io @ [Json], result = Inl e\<rparr>
               | Inr ret \<Rightarrow> \<lparr>self_after = self, trace = io @ [Json, Close], result = Inr ret\<rparr>)
            else \<lparr>self_after = self, trace = io, result = Inr (PInt (status_code resp))\<rparr>)"

definition PayWhirl_get :: "transport \<Rightarrow> PayWhirl \<Rightarrow> string \<Rightarrow> pyval \<Rightarrow> outcome" where
  "PayWhirl_get requests self endpoint params0 =
    (let params = (if params0 = PNone then PDict [] else params0);
         url = api_base self @ ''/'' @ endpoint;
         headers = [(''api_key'', api_key self), (''api_secret'', api_secret self)];
         req = \<lparr>req_verb = GET, req_url = url, req_headers = headers,
                req_params = params, req_data = PNone, req_json = PNone\<rparr>;
         io = [Print url headers, Send req]
     in case requests req of
          Inl e \<Rightarrow> \<lparr>self_after = self, trace = io, result = Inl e\<rparr>
        | Inr resp \<Rightarrow>
            if status_code resp = codes_ok then
              (case json resp of
                 Inl e \<Rightarrow> \<lparr>self_after = self, trace = io @ [Json], result = Inl e\<rparr>
               | Inr ret \<Rightarrow> \<lparr>self_after = self, trace = io @ [Json, Close], result = Inr ret\<rparr>)
            else \<lparr>self_after = self, trace = io, result = Inr (PInt (status_code resp))\<rparr>)"

subsection \<open>The endpoint methods\<close>

definition get_customers :: "transport \<Rightarrow> PayWhirl \<Rightarrow> pyval \<Rightarrow> outcome" where
  "get_customers requests self data =
     PayWhirl_get requests self ''/customers'' data"

definition get_customer :: "transport \<Rightarrow> PayWhirl \<Rightarrow> int \<Rightarrow> outcome" where
  "get_customer requests self customer_id =
     PayWhirl_get requests self
       (str_format ''/customer/{0}'' (str_int customer_id)) PNone"

definition create_customer :: "transport \<Rightarrow> PayWhirl \<Rightarrow> pyval \<Rightarrow> outcome" where
  "create_customer requests self data =
     PayWhirl_post requests self ''/create/customer'' data"

definition update_customer :: "transport \<Rightarrow> PayWhirl \<Rightarrow> pyval \<Rightarrow> outcome" where
  "update_customer requests self data =
     PayWhirl_post requests self ''/update/customer'' data"

definition get_questions :: "transport \<Rightarrow> PayWhirl \<Rightarrow> int \<Rightarrow> outcome" where
  "get_questions requests self return_list_size =
     PayWhirl_get requests self ''/questions''
       (PDict [(PStr ''limit'', PInt return_list_size)])"

definition update_answer :: "transport \<Rightarrow> PayWhirl \<Rightarrow> pyval \<Rightarrow> outcome" where
  "update_answer requests self data =
     PayWhirl_post requests self ''/update/answer'' data"

definition get_answers :: "transport \<Rightarrow> PayWhirl \<Rightarrow> int \<Rightarrow> outcome" where
  "get_answers requests self customer_id =
     PayWhirl_get requests self ''/answers''
       (PDict [(PStr ''customer_id'', PInt customer_id)])"

definition get_plans :: "transport \<Rightarrow> PayWhirl \<Rightarrow> pyval \<Rightarrow> outcome" where
  "get_plans requests self data =
     PayWhirl_get requests self ''/plans'' data"

definition get_plan :: "transport \<Rightarrow> PayWhirl \<Rightarrow> int \<Rightarrow> outcome" where
  "get_plan requests self plan_id =
     PayWhirl_get requests self
       (str_format ''/plan/{0}'' (str_int plan_id)) PNone"

definition create_plan :: "transport \<Rightarrow> PayWhirl \<Rightarrow> pyval \<Rightarrow> outcome" where
  "create_plan requests self data =
     PayWhirl_post requests self ''/create/plan'' data"

definition update_plan :: "transport \<Rightarrow> PayWhirl \<Rightarrow> pyval \<Rightarrow> outcome" where
  "update_plan requests self data =
     PayWhirl_post requests self ''/update/plan'' data"

definition get_subscriptions :: "transport \<Rightarrow> PayWhirl \<Rightarrow> int \<Rightarrow> outcome" where
  "get_subscriptions requests self customer_id =
     PayWhirl_get requests self
       (str_format ''/subscriptions/{0}'' (str_int customer_id)) PNone"

definition get_subscription :: "transport \<Rightarrow> PayWhirl \<Rightarrow> int \<Rightarrow> outcome" where
  "get_subscription requests self subscription_id =
     PayWhirl_get requests self
       (str_format ''/subscription/{0}'' (str_int subscription_id)) PNone"

definition subscribe_customer :: "transport \<Rightarrow> PayWhirl \<Rightarrow> pyval \<Rightarrow> outcome" where
  "subscribe_customer requests self data =
     PayWhirl_post requests self ''/subscribe/customer'' data"

definition update_subscription :: "transport \<Rightarrow> PayWhirl \<Rightarrow> int \<Rightarrow> int \<Rightarrow> int option \<Rightarrow> outcome" where
  "update_subscription requests self subscription_id plan_id quantity =
    (let data = dict_of_pairs [(PStr ''subscription_id'', PInt subscription_id),
                               (PStr ''plan_id'', PInt plan_id)];
         data = (case quantity of None \<Rightarrow> data
                 | Some q \<Rightarrow> setitem data (PStr ''quantity'') (PInt q))
     in PayWhirl_post requests self ''/update/subscription'' (PDict data))"

definition unsubscribe_customer :: "transport \<Rightarrow> PayWhirl \<Rightarrow> int \<Rightarrow> outcome" where
  "unsubscribe_customer requests self subscription_id =
     PayWhirl_post requests self ''/unsubscribe/customer''
       (PDict (dict_of_pairs [(PStr ''subscription_id'', PInt subscription_id)]))"

definition get_subscribers :: "transport \<Rightarrow> PayWhirl \<Rightarrow> pyval \<Rightarrow> outcome" where
  "get_subscribers requests self data =
     PayWhirl_get requests self ''/subscribers'' data"

definition get_invoice :: "transport \<Rightarrow> PayWhirl \<Rightarrow> int \<Rightarrow> outcome" where
  "get_invoice requests self invoice_id =
     PayWhirl_get requests self
       (str_format ''/invoice/{0}'' (str_int invoice_id)) PNone"

definition get_invoices :: "transport \<Rightarrow> PayWhirl \<Rightarrow> int \<Rightarrow> outcome" where
  "get_invoices requests self customer_id =
     PayWhirl_get requests self
       (str_format ''/invoices/{0}'' (str_int customer_id)) PNone"

definition get_gateways :: "transport \<Rightarrow> PayWhirl \<Rightarrow> outcome" where
  "get_gateways requests self =
     PayWhirl_get requests self ''/gateways'' PNone"

definition get_gateway :: "transport \<Rightarrow> PayWhirl \<Rightarrow> int \<Rightarrow> outcome" where
  "get_gateway requests self gateway_id =
     PayWhirl_get requests self
       (str_format ''/gateway/{0}'' (str_int gateway_id)) PNone"

definition create_charge :: "transport \<Rightarrow> PayWhirl \<Rightarrow> pyval \<Rightarrow> outcome" where
  "create_charge requests self data =
     PayWhirl_post requests self ''/create/charge'' data"

definition get_charge :: "transport \<Rightarrow> PayWhirl \<Rightarrow> int \<Rightarrow> outcome" where
  "get_charge requests self charge_id =
     PayWhirl_get requests self
       (str_format ''/charge/{0}'' (str_int charge_id)) PNone"

definition get_cards :: "transport \<Rightarrow> PayWhirl \<Rightarrow> int \<Rightarrow> outcome" where
  "get_cards requests self customer_id =
     PayWhirl_get requests self
       (str_format ''/cards/{0}'' (str_int customer_id)) PNone"

definition get_card :: "transport \<Rightarrow> PayWhirl \<Rightarrow> int \<Rightarrow> outcome" where
  "get_card requests self card_id =
     PayWhirl_get requests self
       (str_format ''/card/{0}'' (str_int card_id)) PNone"

definition create_card :: "transport \<Rightarrow> PayWhirl \<Rightarrow> pyval \<Rightarrow> outcome" where
  "create_card requests self data =
     PayWhirl_post requests self ''/create/card'' data"

definition delete_card :: "transport \<Rightarrow> PayWhirl \<Rightarrow> int \<Rightarrow> outcome" where
  "delete_card requests self card_id =
     PayWhirl_post requests self ''/delete/card''
       (PDict (dict_of_pairs [(PStr ''id'', PInt card_id)]))"

definition get_promos :: "transport \<Rightarrow> PayWhirl \<Rightarrow> outcome" where
  "get_promos requests self =
     PayWhirl_get requests self ''/promo'' PNone"

definition get_promo :: "transport \<Rightarrow> PayWhirl \<Rightarrow> int \<Rightarrow> outcome" where
  "get_promo requests self promo_id =
     PayWhirl_get requests self
       (str_format ''/promo/{0}'' (str_int promo_id)) PNone"

definition create_promo :: "transport \<Rightarrow> PayWhirl \<Rightarrow> pyval \<Rightarrow> outcome" where
  "create_promo requests self data =
     PayWhirl_post requests self ''/create/promo'' data"

definition delete_promo :: "transport \<Rightarrow> PayWhirl \<Rightarrow> int \<Rightarrow> outcome" where
  "delete_promo requests self promo_id =
     PayWhirl_post requests self ''/delete/promo''
       (PDict (dict_of_pairs [(PStr ''id'', PInt promo_id)]))"

definition get_email_template :: "transport \<Rightarrow> PayWhirl \<Rightarrow> int \<Rightarrow> outcome" where
  "get_email_template requests self template_id =
     PayWhirl_get requests self
       (str_format ''/email/{0}'' (str_int template_id)) PNone"

definition send_email :: "transport \<Rightarrow> PayWhirl \<Rightarrow> pyval \<Rightarrow> outcome" where
  "send_email requests self data =
     PayWhirl_post requests self ''/send-email'' data"

definition get_account :: "transport \<Rightarrow> PayWhirl \<Rightarrow> outcome" where
  "get_account requests self =
     PayWhirl_get requests self ''/account'' PNone"

definition get_stats :: "transport \<Rightarrow> PayWhirl \<Rightarrow> outcome" where
  "get_stats requests self =
     PayWhirl_get requests self ''/stats'' PNone"

definition get_shipping_rules :: "transport \<Rightarrow> PayWhirl \<Rightarrow> outcome" where
  "get_shipping_rules requests self =
     PayWhirl_get requests self ''/shipping/'' PNone"

definition get_shipping_rule :: "transport \<Rightarrow> PayWhirl \<Rightarrow> int \<Rightarrow> outcome" where
  "get_shipping_rule requests self shipping_rule_id =
     PayWhirl_get requests self
       (str_format ''/shipping/{0}'' (str_int shipping_rule_id)) PNone"

definition get_tax_rules :: "transport \<Rightarrow> PayWhirl \<Rightarrow> outcome" where
  "get_tax_rules requests self =
     PayWhirl_get requests self ''/tax'' PNone"

definition get_tax_rule :: "transport \<Rightarrow> PayWhirl \<Rightarrow> int \<Rightarrow> outcome" where
  "get_tax_rule requests self rule_id =
     PayWhirl_get requests self
       (str_format ''/tax/{0}'' (str_int rule_id)) PNone"

definition get_multi_auth_token :: "transport \<Rightarrow> PayWhirl \<Rightarrow> pyval \<Rightarrow> outcome" where
  "get_multi_auth_token requests self data =
     PayWhirl_post requests self ''/multiauth'' data"

subsection \<open>Any public method call\<close>

text \<open>
  One constructor for each public method, holding its arguments. An optional argument is
  \<open>None\<close> when the caller leaves it out; \<^verbatim>\<open>get_questions\<close> then takes its declared
  default, 100, and \<^verbatim>\<open>update_subscription\<close> its default \<^verbatim>\<open>None\<close>.
\<close>

datatype call =
    Get_customers pyval
  | Get_customer int
  | Create_customer pyval
  | Update_customer pyval
  | Get_questions "int option"
  | Update_answer pyval
  | Get_answers int
  | Get_plans pyval
  | Get_plan int
  | Create_plan pyval
  | Update_plan pyval
  | Get_subscriptions int
  | Get_subscription int
  | Subscribe_customer pyval
  | Update_subscription int int "int option"
  | Unsubscribe_customer int
  | Get_subscribers pyval
  | Get_invoice int
  | Get_invoices int
  | Get_gateways
  | Get_gateway int
  | Create_charge pyval
  | Get_charge int
  | Get_cards int
  | Get_card int
  | Create_card pyval
  | Delete_card int
  | Get_promos
  | Get_promo int
  | Create_promo pyval
  | Delete_promo int
  | Get_email_template int
  | Send_email pyval
  | Get_account
  | Get_stats
  | Get_shipping_rules
  | Get_shipping_rule int
  | Get_tax_rules
  | Get_tax_rule int
  | Get_multi_auth_token pyval

fun invoke :: "transport \<Rightarrow> PayWhirl \<Rightarrow> call \<Rightarrow> outcome" where
  "invoke requests self (Get_customers x) = get_customers requests self x"
| "invoke requests self (Get_customer x) = get_customer requests self x"
| "invoke requests self (Create_customer x) = create_customer requests self x"
| "invoke requests self (Update_customer x) = update_customer requests self x"
| "invoke requests self (Get_questions None) = get_questions requests self 100"
| "invoke requests self (Get_questions (Some return_list_size)) =
     get_questions requests self return_list_size"
| "invoke requests self (Update_answer x) = update_answer requests self x"
| "invoke requests self (Get_answers x) = get_answers requests self x"
| "invoke requests self (Get_plans x) = get_plans requests self x"
| "invoke requests self (Get_plan x) = get_plan requests self x"
| "invoke requests self (Create_plan x) = create_plan requests self x"
| "invoke requests self (Update_plan x) = update_plan requests self x"
| "invoke requests self (Get_subscriptions x) = get_subscriptions requests self x"
| "invoke requests self (Get_subscription x) = get_subscription requests self x"
| "invoke requests self (Subscribe_customer x) = subscribe_customer requests self x"
| "invoke requests self (Update_subscription subscription_id plan_id quantity) =
     update_subscription requests self subscription_id plan_id quantity"
| "invoke requests self (Unsubscribe_customer x) = unsubscribe_customer requests self x"
| "invoke requests self (Get_subscribers x) = get_subscribers requests self x"
| "invoke requests self (Get_invoice x) = get_invoice requests self x"
| "invoke requests self (Get_invoices x) = get_invoices requests self x"
| "invoke requests self Get_gateways = get_gateways requests self"
| "invoke requests self (Get_gateway x) = get_gateway requests self x"
| "invoke requests self (Create_charge x) = create_charge requests self x"
| "invoke requests self (Get_charge x) = get_charge requests self x"
| "invoke requests self (Get_cards x) = get_cards requests self x"
| "invoke requests self (Get_card x) = get_card requests self x"
| "invoke requests self (Create_card x) = create_card requests self x"
| "invoke requests self (Delete_card x) = delete_card requests self x"
| "invoke requests self Get_promos = get_promos requests self"
| "invoke requests self (Get_promo x) = get_promo requests self x"
| "invoke requests self (Create_promo x) = create_promo requests self x"
| "invoke requests self (Delete_promo x) = delete_promo requests self x"
| "invoke requests self (Get_email_template x) = get_email_template requests self x"
| "invoke requests self (Send_email x) = send_email requests self x"
| "invoke requests self Get_account = get_account requests self"
| "invoke requests self Get_stats = get_stats requests self"
| "invoke requests self Get_shipping_rules = get_shipping_rules requests self"
| "invoke requests self (Get_shipping_rule x) = get_shipping_rule requests self x"
| "invoke requests self Get_tax_rules = get_tax_rules requests self"
| "invoke requests self (Get_tax_rule x) = get_tax_rule requests self x"
| "invoke requests self (Get_multi_auth_token x) = get_multi_auth_token requests self x"

subsection \<open>Fixtures\<close>

text \<open>
  A client with key \<open>k\<close> and secret \<open>s\<close> on the default base URL, and three canned
  responses: HTTP 200 with the body \<^verbatim>\<open>{"a": 1}\<close>, HTTP 404, and HTTP 200 with a body
  that is not JSON.
\<close>

definition client_ks :: PayWhirl where
  "client_ks = init ''k'' ''s'' default_api_base"

definition resp_200_a1 :: response where
  "resp_200_a1 = \<lparr>status_code = 200, json = Inr (PDict [(PStr ''a'', PInt 1)])\<rparr>"

definition resp_404 :: response where
  "resp_404 = \<lparr>status_code = 404, json = Inl (JSONDecodeError ''Expecting value'')\<rparr>"

definition resp_200_garbled :: response where
  "resp_200_garbled = \<lparr>status_code = 200, json = Inl (JSONDecodeError ''Expecting value'')\<rparr>"

text \<open>The request that \<^verbatim>\<open>get_customer(42)\<close> sends from that client.\<close>

definition req_customer_42 :: request where
  "req_customer_42 =
     \<lparr>req_verb = GET, req_url = ''https://api.paywhirl.com//customer/42'',
      req_headers = [(''api_key'', ''k''), (''api_secret'', ''s'')],
      req_params = PDict [], req_data = PNone, req_json = PNone\<rparr>"

lemmas method_defs =
  get_customers_def get_customer_def create_customer_def update_customer_def
  get_questions_def update_answer_def get_answers_def get_plans_def
  get_plan_def create_plan_def update_plan_def get_subscriptions_def
  get_subscription_def subscribe_customer_def update_subscription_def unsubscribe_customer_def
  get_subscribers_def get_invoice_def get_invoices_def get_gateways_def
  get_gateway_def create_charge_def get_charge_def get_cards_def
  get_card_def create_card_def delete_card_def get_promos_def
  get_promo_def create_promo_def delete_promo_def get_email_template_def
  send_email_def get_account_def get_stats_def get_shipping_rules_def
  get_shipping_rule_def get_tax_rules_def get_tax_rule_def get_multi_auth_token_def

section \<open>Evaluation of the helpers\<close>

lemma str_int_42: "str_int 42 = ''42''"
  by code_simp

section \<open>What a dispatcher sends and does\<close>

lemma sent_get:
  "sent (trace (PayWhirl_get requests self endpoint params)) =
     [\<lparr>req_verb = GET, req_url = api_base self @ ''/'' @ endpoint,
       req_headers = [(''api_key'', api_key self), (''api_secret'', api_secret self)],
       req_params = (if params = PNone then PDict [] else params),
       req_data = PNone, req_json = PNone\<rparr>]"
  by (simp add: PayWhirl_get_def Let_def split: sum.splits)

lemma sent_post:
  "sent (trace (PayWhirl_post requests self endpoint params)) =
     [\<lparr>req_verb = POST, req_url = api_base self @ ''/'' @ endpoint,
       req_headers = [(''api_key'', api_key self), (''api_secret'', api_secret self)],
       req_params = (if params = PNone then PDict [] else params),
       req_data = PNone, req_json = PNone\<rparr>]"
  by (simp add: PayWhirl_post_def Let_def split: sum.splits)

text \<open>
  A dispatcher sends one request, with its own verb; what it returns is decided by the
  answer to that request.
\<close>

lemma get_outcome:
  "\<exists>req. sent (trace (PayWhirl_get requests self endpoint params)) = [req]
     \<and> req_verb req = GET
     \<and> (\<forall>resp. requests req = Inr resp \<longrightarrow>
          (if status_code resp = 200
           then result (PayWhirl_get requests self endpoint params) = json resp
           else result (PayWhirl_get requests self endpoint params)
                  = Inr (PInt (status_code resp))
                \<and> Json \<notin> set (trace (PayWhirl_get requests self endpoint params))))"
proof -
  let ?req = "\<lparr>req_verb = GET, req_url = api_base self @ ''/'' @ endpoint,
       req_headers = [(''api_key'', api_key self), (''api_secret'', api_secret self)],
       req_params = (if params = PNone then PDict [] else params),
       req_data = PNone, req_json = PNone\<rparr>"
  have s: "sent (trace (PayWhirl_get requests self endpoint params)) = [?req]"
    by (rule sent_get)
  have r: "if status_code resp = 200
           then result (PayWhirl_get requests self endpoint params) = json resp
           else result (PayWhirl_get requests self endpoint params)
                  = Inr (PInt (status_code resp))
                \<and> Json \<notin> set (trace (PayWhirl_get requests self endpoint params))"
    if "requests ?req = Inr resp" for resp
    using that by (simp add: PayWhirl_get_def Let_def codes_ok_def split: sum.splits)
  have v: "req_verb ?req = GET"
    by simp
  from s v r show ?thesis
    by blast
qed

lemma post_outcome:
  "\<exists>req. sent (trace (PayWhirl_post requests self endpoint params)) = [req]
     \<and> req_verb req = POST
     \<and> (\<forall>resp. requests req = Inr resp \<longrightarrow>
          (if status_code resp = 200
           then result (PayWhirl_post requests self endpoint params) = json resp
           else result (PayWhirl_post requests self endpoint params)
                  = Inr (PInt (status_code resp))
                \<and> Json \<notin> set (trace (PayWhirl_post requests self endpoint params))))"
proof -
  let ?req = "\<lparr>req_verb = POST, req_url = api_base self @ ''/'' @ endpoint,
       req_headers = [(''api_key'', api_key self), (''api_secret'', api_secret self)],
       req_params = (if params = PNone then PDict [] else params),
       req_data = PNone, req_json = PNone\<rparr>"
  have s: "sent (trace (PayWhirl_post requests self endpoint params)) = [?req]"
    by (rule sent_post)
  have r: "if status_code resp = 200
           then result (PayWhirl_post requests self endpoint params) = json resp
           else result (PayWhirl_post requests self endpoint params)
                  = Inr (PInt (status_code resp))
                \<and> Json \<notin> set (trace (PayWhirl_post requests self endpoint params))"
    if "requests ?req = Inr resp" for resp
    using that by (simp add: PayWhirl_post_def Let_def codes_ok_def split: sum.splits)
  have v: "req_verb ?req = POST"
    by simp
  from s v r show ?thesis
    by blast
qed

text \<open>Every public method is one call of one of the two dispatchers.\<close>

lemma invoke_dispatch:
  "\<exists>endpoint params.
      invoke requests self c = PayWhirl_get requests self endpoint params
    \<or> invoke requests self c = PayWhirl_post requests self endpoint params"
  by (induction requests self c rule: invoke.induct) (auto simp: method_defs Let_def)

lemma invoke_outcome:
  "\<exists>req. sent (trace (invoke requests self c)) = [req]
     \<and> (\<forall>resp. requests req = Inr resp \<longrightarrow>
          (if status_code resp = 200
           then result (invoke requests self c) = json resp
           else result (invoke requests self c) = Inr (PInt (status_code resp))
                \<and> Json \<notin> set (trace (invoke requests self c))))"
proof -
  obtain ep ps where
    "invoke requests self c = PayWhirl_get requests self ep ps
   \<or> invoke requests self c = PayWhirl_post requests self ep ps"
    using invoke_dispatch by blast
  then show ?thesis
  proof
    assume g: "invoke requests self c = PayWhirl_get requests self ep ps"
    from get_outcome [of requests self ep ps] show ?thesis
      unfolding g by blast
  next
    assume p: "invoke requests self c = PayWhirl_post requests self ep ps"
    from post_outcome [of requests self ep ps] show ?thesis
      unfolding p by blast
  qed
qed

lemma mock_answers: "mock resp req = Inr resp"
  by (simp add: mock_def)

lemma sent_customer_42:
  "sent (trace (get_customer requests client_ks 42)) = [req_customer_42]"
  by (simp add: get_customer_def sent_get client_ks_def init_def default_api_base_def
      req_customer_42_def str_int_42)

section \<open>Results of a dispatch call\<close>

text \<open>
  C1. A dispatch call sends one request (the GET dispatcher a GET, the POST dispatcher a
  POST, and every public method is such a call), and when that request is answered with
  status 200 the call ends exactly as the response's JSON decoding ends: it returns the
  decoded body, unchanged.
\<close>

theorem status_200_returns_decoded_body:
  "(\<exists>req. sent (trace (PayWhirl_get requests self endpoint params)) = [req]
      \<and> req_verb req = GET
      \<and> (\<forall>resp. requests req = Inr resp \<longrightarrow> status_code resp = 200 \<longrightarrow>
            result (PayWhirl_get requests self endpoint params) = json resp))
   \<and> (\<exists>req. sent (trace (PayWhirl_post requests self endpoint params)) = [req]
      \<and> req_verb req = POST
      \<and> (\<forall>resp. requests req = Inr resp \<longrightarrow> status_code resp = 200 \<longrightarrow>
            result (PayWhirl_post requests self endpoint params) = json resp))
   \<and> (\<exists>req. sent (trace (invoke requests self c)) = [req]
      \<and> (\<forall>resp. requests req = Inr resp \<longrightarrow> status_code resp = 200 \<longrightarrow>
            result (invoke requests self c) = json resp))"
proof (intro conjI)
  from get_outcome [of requests self endpoint params]
  obtain req where "sent (trace (PayWhirl_get requests self endpoint params)) = [req]"
    and "req_verb req = GET"
    and "\<forall>resp. requests req = Inr resp \<longrightarrow> status_code resp = 200 \<longrightarrow>
           result (PayWhirl_get requests self endpoint params) = json resp"
    by auto
  then show "\<exists>req. sent (trace (PayWhirl_get requests self endpoint params)) = [req]
      \<and> req_verb req = GET
      \<and> (\<forall>resp. requests req = Inr resp \<longrightarrow> status_code resp = 200 \<longrightarrow>
            result (PayWhirl_get requests self endpoint params) = json resp)"
    by blast
next
  from post_outcome [of requests self endpoint params]
  obtain req where "sent (trace (PayWhirl_post requests self endpoint params)) = [req]"
    and "req_verb req = POST"
    and "\<forall>resp. requests req = Inr resp \<longrightarrow> status_code resp = 200 \<longrightarrow>
           result (PayWhirl_post requests self endpoint params) = json resp"
    by auto
  then show "\<exists>req. sent (trace (PayWhirl_post requests self endpoint params)) = [req]
      \<and> req_verb req = POST
      \<and> (\<forall>resp. requests req = Inr resp \<longrightarrow> status_code resp = 200 \<longrightarrow>
            result (PayWhirl_post requests self endpoint params) = json resp)"
    by blast
next
  from invoke_outcome [of requests self c]
  obtain req where "sent (trace (invoke requests self c)) = [req]"
    and "\<forall>resp. requests req = Inr resp \<longrightarrow> status_code resp = 200 \<longrightarrow>
           result (invoke requests self c) = json resp"
    by auto
  then show "\<exists>req. sent (trace (invoke requests self c)) = [req]
      \<and> (\<forall>resp. requests req = Inr resp \<longrightarrow> status_code resp = 200 \<longrightarrow>
            result (invoke requests self c) = json resp)"
    by blast
qed

theorem status_200_returns_decoded_body_witness:
  "status_code resp_200_a1 = 200
   \<and> result (PayWhirl_get (mock resp_200_a1) client_ks ''/customers'' PNone)
       = Inr (PDict [(PStr ''a'', PInt 1)])
   \<and> result (PayWhirl_post (mock resp_200_a1) client_ks ''/customers'' PNone)
       = Inr (PDict [(PStr ''a'', PInt 1)])
   \<and> result (invoke (mock resp_200_a1) client_ks (Create_customer PNone))
       = Inr (PDict [(PStr ''a'', PInt 1)])"
proof -
  have s: "status_code resp_200_a1 = 200"
    and j: "json resp_200_a1 = Inr (PDict [(PStr ''a'', PInt 1)])"
    by (simp_all add: resp_200_a1_def)
  note t = status_200_returns_decoded_body
             [of "mock resp_200_a1" client_ks "''/customers''" PNone "Create_customer PNone"]
  from t s have "result (PayWhirl_get (mock resp_200_a1) client_ks ''/customers'' PNone)
                   = json resp_200_a1"
    using mock_answers by blast
  moreover
  from t s have "result (PayWhirl_post (mock resp_200_a1) client_ks ''/customers'' PNone)
                   = json resp_200_a1"
    using mock_answers by blast
  moreover
  from t s have "result (invoke (mock resp_200_a1) client_ks (Create_customer PNone))
                   = json resp_200_a1"
    using mock_answers by blast
  ultimately show ?thesis using s j by simp
qed

text \<open>
  C2. A dispatch call sends one request, and when that request is answered with any
  status other than 200 the call returns that status code as an integer: no exception
  leaves the call, and the response's JSON decoder is never called. This holds for the GET
  dispatcher, for the POST dispatcher, and so for every public method.
\<close>

theorem other_status_returns_status_code:
  "(\<exists>req. sent (trace (PayWhirl_get requests self endpoint params)) = [req]
      \<and> req_verb req = GET
      \<and> (\<forall>resp. requests req = Inr resp \<longrightarrow> status_code resp \<noteq> 200 \<longrightarrow>
            result (PayWhirl_get requests self endpoint params)
              = Inr (PInt (status_code resp))
            \<and> Json \<notin> set (trace (PayWhirl_get requests self endpoint params))))
   \<and> (\<exists>req. sent (trace (PayWhirl_post requests self endpoint params)) = [req]
      \<and> req_verb req = POST
      \<and> (\<forall>resp. requests req = Inr resp \<longrightarrow> status_code resp \<noteq> 200 \<longrightarrow>
            result (PayWhirl_post requests self endpoint params)
              = Inr (PInt (status_code resp))
            \<and> Json \<notin> set (trace (PayWhirl_post requests self endpoint params))))
   \<and> (\<exists>req. sent (trace (invoke requests self c)) = [req]
      \<and> (\<forall>resp. requests req = Inr resp \<longrightarrow> status_code resp \<noteq> 200 \<longrightarrow>
            result (invoke requests self c) = Inr (PInt (status_code resp))
            \<and> Json \<notin> set (trace (invoke requests self c))))"
proof (intro conjI)
  from get_outcome [of requests self endpoint params]
  obtain req where "sent (trace (PayWhirl_get requests self endpoint params)) = [req]"
    and "req_verb req = GET"
    and "\<forall>resp. requests req = Inr resp \<longrightarrow> status_code resp \<noteq> 200 \<longrightarrow>
           result (PayWhirl_get requests self endpoint params)
             = Inr (PInt (status_code resp))
           \<and> Json \<notin> set (trace (PayWhirl_get requests self endpoint params))"
    by auto
  then show "\<exists>req. sent (trace (PayWhirl_get requests self endpoint params)) = [req]
      \<and> req_verb req = GET
      \<and> (\<forall>resp. requests req = Inr resp \<longrightarrow> status_code resp \<noteq> 200 \<longrightarrow>
            result (PayWhirl_get requests self endpoint params)
              = Inr (PInt (status_code resp))
            \<and> Json \<notin> set (trace (PayWhirl_get requests self endpoint params)))"
    by blast
next
  from post_outcome [of requests self endpoint params]
  obtain req where "sent (trace (PayWhirl_post requests self endpoint params)) = [req]"
    and "req_verb req = POST"
    and "\<forall>resp. requests req = Inr resp \<longrightarrow> status_code resp \<noteq> 200 \<longrightarrow>
           result (PayWhirl_post requests self endpoint params)
             = Inr (PInt (status_code resp))
           \<and> Json \<notin> set (trace (PayWhirl_post requests self endpoint params))"
    by auto
  then show "\<exists>req. sent (trace (PayWhirl_post requests self endpoint params)) = [req]
      \<and> req_verb req = POST
      \<and> (\<forall>resp. requests req = Inr resp \<longrightarrow> status_code resp \<noteq> 200 \<longrightarrow>
            result (PayWhirl_post requests self endpoint params)
              = Inr (PInt (status_code resp))
            \<and> Json \<notin> set (trace (PayWhirl_post requests self endpoint params)))"
    by blast
next
  from invoke_outcome [of requests self c]
  obtain req where "sent (trace (invoke requests self c)) = [req]"
    and "\<forall>resp. requests req = Inr resp \<longrightarrow> status_code resp \<noteq> 200 \<longrightarrow>
           result (invoke requests self c) = Inr (PInt (status_code resp))
           \<and> Json \<notin> set (trace (invoke requests self c))"
    by auto
  then show "\<exists>req. sent (trace (invoke requests self c)) = [req]
      \<and> (\<forall>resp. requests req = Inr resp \<longrightarrow> status_code resp \<noteq> 200 \<longrightarrow>
            result (invoke requests self c) = Inr (PInt (status_code resp))
            \<and> Json \<notin> set (trace (invoke requests self c)))"
    by blast
qed

theorem other_status_returns_status_code_witness:
  "status_code resp_404 \<noteq> 200
   \<and> result (PayWhirl_get (mock resp_404) client_ks ''/customers'' PNone) = Inr (PInt 404)
   \<and> Json \<notin> set (trace (PayWhirl_get (mock resp_404) client_ks ''/customers'' PNone))
   \<and> result (PayWhirl_post (mock resp_404) client_ks ''/customers'' PNone) = Inr (PInt 404)
   \<and> Json \<notin> set (trace (PayWhirl_post (mock resp_404) client_ks ''/customers'' PNone))
   \<and> result (invoke (mock resp_404) client_ks (Create_customer PNone)) = Inr (PInt 404)
   \<and> Json \<notin> set (trace (invoke (mock resp_404) client_ks (Create_customer PNone)))"
proof -
  have s: "status_code resp_404 \<noteq> 200" and v: "status_code resp_404 = 404"
    by (simp_all add: resp_404_def)
  note t = other_status_returns_status_code
             [of "mock resp_404" client_ks "''/customers''" PNone "Create_customer PNone"]
  from t s have "result (PayWhirl_get (mock resp_404) client_ks ''/customers'' PNone)
                   = Inr (PInt (status_code resp_404))
               \<and> Json \<notin> set (trace (PayWhirl_get (mock resp_404) client_ks ''/customers'' PNone))"
    using mock_answers by blast
  moreover
  from t s have "result (PayWhirl_post (mock resp_404) client_ks ''/customers'' PNone)
                   = Inr (PInt (status_code resp_404))
               \<and> Json \<notin> set (trace (PayWhirl_post (mock resp_404) client_ks ''/customers'' PNone))"
    using mock_answers by blast
  moreover
  from t s have "result (invoke (mock resp_404) client_ks (Create_customer PNone))
                   = Inr (PInt (status_code resp_404))
               \<and> Json \<notin> set (trace (invoke (mock resp_404) client_ks (Create_customer PNone)))"
    using mock_answers by blast
  ultimately show ?thesis using s v by simp
qed

text \<open>
  C10. A dispatch call sends one request, and when that request is answered with status
  200 and a body that the JSON decoder rejects, the call ends with the decoder's
  exception; it returns no value. This holds for the GET dispatcher, for the POST
  dispatcher, and so for every public method.
\<close>

theorem status_200_bad_json_raises:
  "(\<exists>req. sent (trace (PayWhirl_get requests self endpoint params)) = [req]
      \<and> req_verb req = GET
      \<and> (\<forall>resp e. requests req = Inr resp \<longrightarrow> status_code resp = 200 \<longrightarrow>
            json resp = Inl e \<longrightarrow>
            result (PayWhirl_get requests self endpoint params) = Inl e))
   \<and> (\<exists>req. sent (trace (PayWhirl_post requests self endpoint params)) = [req]
      \<and> req_verb req = POST
      \<and> (\<forall>resp e. requests req = Inr resp \<longrightarrow> status_code resp = 200 \<longrightarrow>
            json resp = Inl e \<longrightarrow>
            result (PayWhirl_post requests self endpoint params) = Inl e))
   \<and> (\<exists>req. sent (trace (invoke requests self c)) = [req]
      \<and> (\<forall>resp e. requests req = Inr resp \<longrightarrow> status_code resp = 200 \<longrightarrow>
            json resp = Inl e \<longrightarrow>
            result (invoke requests self c) = Inl e))"
proof (intro conjI)
  from get_outcome [of requests self endpoint params]
  obtain req where "sent (trace (PayWhirl_get requests self endpoint params)) = [req]"
    and "req_verb req = GET"
    and "\<forall>resp. requests req = Inr resp \<longrightarrow> status_code resp = 200 \<longrightarrow>
           result (PayWhirl_get requests self endpoint params) = json resp"
    by auto
  then show "\<exists>req. sent (trace (PayWhirl_get requests self endpoint params)) = [req]
      \<and> req_verb req = GET
      \<and> (\<forall>resp e. requests req = Inr resp \<longrightarrow> status_code resp = 200 \<longrightarrow>
            json resp = Inl e \<longrightarrow>
            result (PayWhirl_get requests self endpoint params) = Inl e)"
    by auto
next
  from post_outcome [of requests self endpoint params]
  obtain req where "sent (trace (PayWhirl_post requests self endpoint params)) = [req]"
    and "req_verb req = POST"
    and "\<forall>resp. requests req = Inr resp \<longrightarrow> status_code resp = 200 \<longrightarrow>
           result (PayWhirl_post requests self endpoint params) = json resp"
    by auto
  then show "\<exists>req. sent (trace (PayWhirl_post requests self endpoint params)) = [req]
      \<and> req_verb req = POST
      \<and> (\<forall>resp e. requests req = Inr resp \<longrightarrow> status_code resp = 200 \<longrightarrow>
            json resp = Inl e \<longrightarrow>
            result (PayWhirl_post requests self endpoint params) = Inl e)"
    by auto
next
  from invoke_outcome [of requests self c]
  obtain req where "sent (trace (invoke requests self c)) = [req]"
    and "\<forall>resp. requests req = Inr resp \<longrightarrow> status_code resp = 200 \<longrightarrow>
           result (invoke requests self c) = json resp"
    by auto
  then show "\<exists>req. sent (trace (invoke requests self c)) = [req]
      \<and> (\<forall>resp e. requests req = Inr resp \<longrightarrow> status_code resp = 200 \<longrightarrow>
            json resp = Inl e \<longrightarrow>
            result (invoke requests self c) = Inl e)"
    by auto
qed

theorem status_200_bad_json_raises_witness:
  "status_code resp_200_garbled = 200
   \<and> json resp_200_garbled = Inl (JSONDecodeError ''Expecting value'')
   \<and> result (PayWhirl_get (mock resp_200_garbled) client_ks ''/customers'' PNone)
       = Inl (JSONDecodeError ''Expecting value'')
   \<and> result (PayWhirl_post (mock resp_200_garbled) client_ks ''/customers'' PNone)
       = Inl (JSONDecodeError ''Expecting value'')
   \<and> result (invoke (mock resp_200_garbled) client_ks (Create_customer PNone))
       = Inl (JSONDecodeError ''Expecting value'')"
proof -
  have s: "status_code resp_200_garbled = 200"
    and j: "json resp_200_garbled = Inl (JSONDecodeError ''Expecting value'')"
    by (simp_all add: resp_200_garbled_def)
  note t = status_200_bad_json_raises
             [of "mock resp_200_garbled" client_ks "''/customers''" PNone "Create_customer PNone"]
  from t s j have "result (PayWhirl_get (mock resp_200_garbled) client_ks ''/customers'' PNone)
                   = Inl (JSONDecodeError ''Expecting value'')"
    using mock_answers by blast
  moreover
  from t s j have "result (PayWhirl_post (mock resp_200_garbled) client_ks ''/customers'' PNone)
                   = Inl (JSONDecodeError ''Expecting value'')"
    using mock_answers by blast
  moreover
  from t s j have "result (invoke (mock resp_200_garbled) client_ks (Create_customer PNone))
                   = Inl (JSONDecodeError ''Expecting value'')"
    using mock_answers by blast
  ultimately show ?thesis using s j by simp
qed

section \<open>The request on the wire\<close>

lemma invoke_url:
  "\<exists>path. map req_url (sent (trace (invoke requests self c))) = [api_base self @ ''//'' @ path]"
  by (induction requests self c rule: invoke.induct)
     (simp_all add: method_defs Let_def sent_get sent_post)

text \<open>
  C3, as the claim states it: \<^verbatim>\<open>get_customer(42)\<close> on the default base URL would target
  \<^verbatim>\<open>https://api.paywhirl.com/customer/42\<close>. It does not: the method passes the path
  \<^verbatim>\<open>/customer/42\<close> and the dispatcher puts its own separator in front of it.
\<close>

theorem get_customer_42_url_counterexample:
  "map req_url (sent (trace (get_customer (mock resp_200_a1) client_ks 42)))
     \<noteq> [''https://api.paywhirl.com/customer/42'']"
  by (simp add: sent_customer_42 req_customer_42_def)

text \<open>
  C3, amended. The URL of a dispatch call is the base URL, one separator, and the endpoint
  path exactly as it was given: nothing is normalised, so a separator at the start of the
  path stays. Every public method passes a path that starts with a separator, so its URL
  has two; \<^verbatim>\<open>get_customer(42)\<close> on the default base URL targets
  \<^verbatim>\<open>https://api.paywhirl.com//customer/42\<close>.
\<close>

theorem url_is_base_slash_path_verbatim:
  "map req_url (sent (trace (PayWhirl_get requests self endpoint params)))
     = [api_base self @ ''/'' @ endpoint]
   \<and> map req_url (sent (trace (PayWhirl_post requests self endpoint params)))
     = [api_base self @ ''/'' @ endpoint]
   \<and> (\<exists>path. map req_url (sent (trace (invoke requests self c)))
          = [api_base self @ ''//'' @ path])
   \<and> map req_url (sent (trace (get_customer requests (init key secret default_api_base) 42)))
     = [''https://api.paywhirl.com//customer/42'']"
proof -
  have "map req_url (sent (trace (get_customer requests (init key secret default_api_base) 42)))
          = [''https://api.paywhirl.com//customer/42'']"
    by (simp add: get_customer_def sent_get init_def default_api_base_def str_int_42)
  then show ?thesis
    using invoke_url [of requests self c] by (simp add: sent_get sent_post)
qed

text \<open>
  C4. The headers of the request a dispatch call sends are exactly \<^verbatim>\<open>api_key\<close> with the
  key and \<^verbatim>\<open>api_secret\<close> with the secret the client was constructed with, as they were
  given: on the GET dispatcher, on the POST dispatcher, and so for every public method.
\<close>

theorem headers_are_key_and_secret:
  "map req_headers (sent (trace (PayWhirl_get requests (init key secret base) endpoint params)))
     = [[(''api_key'', key), (''api_secret'', secret)]]
   \<and> map req_headers (sent (trace (PayWhirl_post requests (init key secret base) endpoint params)))
     = [[(''api_key'', key), (''api_secret'', secret)]]
   \<and> map req_headers (sent (trace (invoke requests (init key secret base) c)))
     = [[(''api_key'', key), (''api_secret'', secret)]]"
proof -
  obtain ep ps where
    "invoke requests (init key secret base) c = PayWhirl_get requests (init key secret base) ep ps
   \<or> invoke requests (init key secret base) c = PayWhirl_post requests (init key secret base) ep ps"
    using invoke_dispatch by blast
  then show ?thesis
    by (auto simp: sent_get sent_post init_def)
qed

text \<open>
  C7. The POST dispatcher hands the caller's parameters (an empty dictionary when there
  are none) to the HTTP library as \<^verbatim>\<open>params\<close>, the query string; it passes no request
  body, neither as \<^verbatim>\<open>data\<close> nor as \<^verbatim>\<open>json\<close>.
\<close>

theorem post_params_go_in_query_string:
  "map req_verb (sent (trace (PayWhirl_post requests self endpoint params))) = [POST]
   \<and> map req_params (sent (trace (PayWhirl_post requests self endpoint params)))
     = [if params = PNone then PDict [] else params]
   \<and> map req_data (sent (trace (PayWhirl_post requests self endpoint params))) = [PNone]
   \<and> map req_json (sent (trace (PayWhirl_post requests self endpoint params))) = [PNone]"
  by (simp add: sent_post)

text \<open>
  C8. \<^verbatim>\<open>update_subscription\<close> without a quantity sends the parameters
  \<^verbatim>\<open>subscription_id\<close> and \<^verbatim>\<open>plan_id\<close> and no others; with a quantity it sends these
  two and \<^verbatim>\<open>quantity\<close> with the value given.
\<close>

theorem update_subscription_params:
  "map req_params (sent (trace (update_subscription requests self subscription_id plan_id None)))
     = [PDict [(PStr ''subscription_id'', PInt subscription_id),
               (PStr ''plan_id'', PInt plan_id)]]
   \<and> map req_params
        (sent (trace (update_subscription requests self subscription_id plan_id (Some quantity))))
     = [PDict [(PStr ''subscription_id'', PInt subscription_id),
               (PStr ''plan_id'', PInt plan_id),
               (PStr ''quantity'', PInt quantity)]]"
  by (simp add: update_subscription_def dict_of_pairs_def Let_def sent_post)

section \<open>Effects of a dispatch call\<close>

lemma trace_get:
  "\<exists>rest. trace (PayWhirl_get requests self endpoint params) =
     Print (api_base self @ ''/'' @ endpoint)
       [(''api_key'', api_key self), (''api_secret'', api_secret self)]
     # Send \<lparr>req_verb = GET, req_url = api_base self @ ''/'' @ endpoint,
         req_headers = [(''api_key'', api_key self), (''api_secret'', api_secret self)],
         req_params = (if params = PNone then PDict [] else params),
         req_data = PNone, req_json = PNone\<rparr>
     # rest"
  by (simp add: PayWhirl_get_def Let_def split: sum.splits)

lemma trace_post:
  "\<exists>rest. trace (PayWhirl_post requests self endpoint params) =
     Print (api_base self @ ''/'' @ endpoint)
       [(''api_key'', api_key self), (''api_secret'', api_secret self)]
     # Send \<lparr>req_verb = POST, req_url = api_base self @ ''/'' @ endpoint,
         req_headers = [(''api_key'', api_key self), (''api_secret'', api_secret self)],
         req_params = (if params = PNone then PDict [] else params),
         req_data = PNone, req_json = PNone\<rparr>
     # rest"
  by (simp add: PayWhirl_post_def Let_def split: sum.splits)

lemma trace_dispatch:
  assumes "d = PayWhirl_get requests self endpoint params
         \<or> d = PayWhirl_post requests self endpoint params"
  shows "\<exists>req rest. trace d =
           Print (req_url req) [(''api_key'', api_key self), (''api_secret'', api_secret self)]
           # Send req # rest
         \<and> req_url req = api_base self @ ''/'' @ endpoint
         \<and> req_headers req = [(''api_key'', api_key self), (''api_secret'', api_secret self)]"
proof -
  from assms consider "d = PayWhirl_get requests self endpoint params"
    | "d = PayWhirl_post requests self endpoint params" by blast
  then show ?thesis
  proof cases
    case 1
    obtain rest where "trace d =
       Print (api_base self @ ''/'' @ endpoint)
         [(''api_key'', api_key self), (''api_secret'', api_secret self)]
       # Send \<lparr>req_verb = GET, req_url = api_base self @ ''/'' @ endpoint,
           req_headers = [(''api_key'', api_key self), (''api_secret'', api_secret self)],
           req_params = (if params = PNone then PDict [] else params),
           req_data = PNone, req_json = PNone\<rparr>
       # rest"
      using trace_get [of requests self endpoint params] 1 by auto
    then show ?thesis by simp
  next
    case 2
    obtain rest where "trace d =
       Print (api_base self @ ''/'' @ endpoint)
         [(''api_key'', api_key self), (''api_secret'', api_secret self)]
       # Send \<lparr>req_verb = POST, req_url = api_base self @ ''/'' @ endpoint,
           req_headers = [(''api_key'', api_key self), (''api_secret'', api_secret self)],
           req_params = (if params = PNone then PDict [] else params),
           req_data = PNone, req_json = PNone\<rparr>
       # rest"
      using trace_post [of requests self endpoint params] 2 by auto
    then show ?thesis by simp
  qed
qed


text \<open>
  C6. The first effect of a dispatch call is to print the request's URL and its headers,
  which hold the key and the secret as they are, on standard output; sending the request
  comes second. This holds for the GET dispatcher, for the POST dispatcher, and so for
  every call of a public method.
\<close>

theorem url_and_credentials_printed_before_send:
  "(\<exists>req rest.
      trace (PayWhirl_get requests (init key secret base) endpoint params)
        = Print (req_url req) [(''api_key'', key), (''api_secret'', secret)] # Send req # rest
      \<and> req_url req = base @ ''/'' @ endpoint
      \<and> req_headers req = [(''api_key'', key), (''api_secret'', secret)])
   \<and> (\<exists>req rest.
      trace (PayWhirl_post requests (init key secret base) endpoint params)
        = Print (req_url req) [(''api_key'', key), (''api_secret'', secret)] # Send req # rest
      \<and> req_url req = base @ ''/'' @ endpoint
      \<and> req_headers req = [(''api_key'', key), (''api_secret'', secret)])
   \<and> (\<exists>req rest.
      trace (invoke requests (init key secret base) c)
        = Print (req_url req) [(''api_key'', key), (''api_secret'', secret)] # Send req # rest
      \<and> req_headers req = [(''api_key'', key), (''api_secret'', secret)])"
proof -
  let ?self = "init key secret base"
  have sel: "api_key ?self = key" "api_secret ?self = secret" "api_base ?self = base"
    by (simp_all add: init_def)
  have g: "\<exists>req rest.
      trace (PayWhirl_get requests ?self endpoint params)
        = Print (req_url req) [(''api_key'', key), (''api_secret'', secret)] # Send req # rest
      \<and> req_url req = base @ ''/'' @ endpoint
      \<and> req_headers req = [(''api_key'', key), (''api_secret'', secret)]"
    using trace_dispatch [of "PayWhirl_get requests ?self endpoint params"
        requests ?self endpoint params]
    unfolding sel by simp
  have p: "\<exists>req rest.
      trace (PayWhirl_post requests ?self endpoint params)
        = Print (req_url req) [(''api_key'', key), (''api_secret'', secret)] # Send req # rest
      \<and> req_url req = base @ ''/'' @ endpoint
      \<and> req_headers req = [(''api_key'', key), (''api_secret'', secret)]"
    using trace_dispatch [of "PayWhirl_post requests ?self endpoint params"
        requests ?self endpoint params]
    unfolding sel by simp
  obtain ep ps where
    "invoke requests ?self c = PayWhirl_get requests ?self ep ps
   \<or> invoke requests ?self c = PayWhirl_post requests ?self ep ps"
    using invoke_dispatch by blast
  from trace_dispatch [OF this]
  have i: "\<exists>req rest.
      trace (invoke requests ?self c)
        = Print (req_url req) [(''api_key'', key), (''api_secret'', secret)] # Send req # rest
      \<and> req_headers req = [(''api_key'', key), (''api_secret'', secret)]"
    unfolding sel by blast
  from g p i show ?thesis by blast
qed

section \<open>The client's state\<close>

lemma self_after_get: "self_after (PayWhirl_get requests self endpoint params) = self"
  by (simp add: PayWhirl_get_def Let_def split: sum.splits)

lemma self_after_post: "self_after (PayWhirl_post requests self endpoint params) = self"
  by (simp add: PayWhirl_post_def Let_def split: sum.splits)

lemma self_after_invoke: "self_after (invoke requests self c) = self"
  using invoke_dispatch [of requests self c]
  by (auto simp: self_after_get self_after_post)

text \<open>
  C9. A call of a dispatcher or of any public method leaves key, secret and base URL as
  they were, and the call's outcome depends on nothing else that a call could have
  changed: the same call made again on the object the first call left behind, against the
  same transport, has the same result and the same effects.
\<close>

theorem calls_leave_client_unchanged:
  "self_after (PayWhirl_get requests self endpoint params) = self
   \<and> self_after (PayWhirl_post requests self endpoint params) = self
   \<and> self_after (invoke requests self c) = self
   \<and> invoke requests (self_after (invoke requests self c)) c = invoke requests self c"
  by (simp add: self_after_get self_after_post self_after_invoke)

end
